theory Spec2Isabelle
  imports
    Complex_Main
    "HOL-Library.AList"
    "HOL-Library.Char_ord"
    "HOL-Library.List_Lexorder"
    "HOL-Library.Product_Lexorder"
    "HOL-Library.Sublist"
begin

section \<open>Energie dashboard (app.py): data preparation and metric derivation\<close>

text \<open>
  The script \<^verbatim>\<open>app.py\<close> reads one CSV into a pandas DataFrame, checks for the
  column \<^verbatim>\<open>Date - Heure\<close>, derives the year and the month of every row, filters
  the rows by the region and the year range chosen in the sidebar, and computes the
  aggregates of the selected page. This theory embeds these steps as functions over lists
  of rows.

  What the embedding fixes:
  \<^item> A numeric cell is a float64: a finite value (the real number it denotes), an
    infinity or \<open>NaN\<close> (pandas uses \<open>NaN\<close> for a missing number). What the libraries
    compute from finite values is not defined here: the result of an addition, a
    multiplication or a division of two finite values, and the result of a sum or a mean
    over a run of cells (rounding, overflow, the order of the additions, the wrap-around
    of an all-integer column) are parameters of the model, the record \<open>numerics\<close>, and
    nothing is assumed about them. Only the cases IEEE 754 fixes without rounding are
    written out: \<open>NaN\<close> and the infinities as operands, and division by zero. Zero has
    no sign.
  \<^item> A frame has the columns the script reads by name (section 6 of the specification):
    a row is a record with one field per column. A CSV without one of the other columns
    makes pandas raise \<^verbatim>\<open>KeyError\<close>; the row type excludes such files. The column
    index (the header) is kept beside the rows; a column name is the list of its Unicode
    code points. A region label is a byte string (UTF-8), whose order is the order of
    the code points.
  \<^item> \<^verbatim>\<open>pd.to_datetime\<close> is a parameter \<open>to_datetime\<close> of the model: a function from the
    text of a cell to an optional timestamp (\<^verbatim>\<open>errors="coerce"\<close> turns a failure
    into \<^verbatim>\<open>NaT\<close>, here \<open>None\<close>).
  \<^item> The values returned by the sidebar widgets (\<open>page\<close>, \<open>region\<close>, \<open>annee\<close>) are inputs
    of a run. Of the calls that draw a table, a chart or a metric, the model keeps the
    data handed to them, in the order of the calls, and the exception the call of line
    209 raises.
\<close>

subsection \<open>float64 values\<close>

datatype f64 = Fin real | PInf | NInf | NaN

text \<open>
  The arithmetic of numpy and pandas on finite values: \<open>np_add x y\<close>, \<open>np_multiply x y\<close>
  and \<open>np_divide x y\<close> (for \<open>y\<close> not zero) are the float64 results of \<^verbatim>\<open>x + y\<close>,
  \<^verbatim>\<open>x * y\<close> and \<^verbatim>\<open>x / y\<close>; \<open>np_sum\<close> is the reduction behind \<^verbatim>\<open>Series.sum\<close> and
  \<^verbatim>\<open>DataFrame.sum\<close>, \<open>groupby_sum\<close> and \<open>groupby_mean\<close> are the reductions behind
  \<^verbatim>\<open>groupby(...).sum()\<close> and \<^verbatim>\<open>groupby(...).mean()\<close>, each applied to the cells of a
  run that are not \<open>NaN\<close>, in their order, when there is at least one.
\<close>

record numerics =
  np_add :: "real \<Rightarrow> real \<Rightarrow> f64"
  np_multiply :: "real \<Rightarrow> real \<Rightarrow> f64"
  np_divide :: "real \<Rightarrow> real \<Rightarrow> f64"
  np_sum :: "f64 list \<Rightarrow> f64"
  groupby_sum :: "f64 list \<Rightarrow> f64"
  groupby_mean :: "f64 list \<Rightarrow> f64"

fun isnan :: "f64 \<Rightarrow> bool" where
  "isnan NaN = True"
| "isnan _ = False"

fun isinf :: "f64 \<Rightarrow> bool" where
  "isinf PInf = True"
| "isinf NInf = True"
| "isinf _ = False"

fun fneg :: "f64 \<Rightarrow> f64" where
  "fneg (Fin a) = Fin (- a)"
| "fneg PInf = NInf"
| "fneg NInf = PInf"
| "fneg NaN = NaN"

text \<open>\<^verbatim>\<open>x + y\<close>, given the addition of finite values.\<close>

fun fadd :: "(real \<Rightarrow> real \<Rightarrow> f64) \<Rightarrow> f64 \<Rightarrow> f64 \<Rightarrow> f64" where
  "fadd add (Fin a) (Fin b) = add a b"
| "fadd add NaN _ = NaN"
| "fadd add _ NaN = NaN"
| "fadd add PInf NInf = NaN"
| "fadd add NInf PInf = NaN"
| "fadd add PInf _ = PInf"
| "fadd add _ PInf = PInf"
| "fadd add NInf _ = NInf"
| "fadd add _ NInf = NInf"

text \<open>\<^verbatim>\<open>x - y\<close> is \<^verbatim>\<open>x + (-y)\<close>; changing the sign does not round.\<close>

definition fsub :: "(real \<Rightarrow> real \<Rightarrow> f64) \<Rightarrow> f64 \<Rightarrow> f64 \<Rightarrow> f64" where
  "fsub add a b = fadd add a (fneg b)"

text \<open>The sign of a value that is not \<open>NaN\<close>: \<open>-1\<close>, \<open>0\<close> or \<open>1\<close>.\<close>

fun fsgn :: "f64 \<Rightarrow> int" where
  "fsgn (Fin a) = (if a < 0 then - 1 else if a = 0 then 0 else 1)"
| "fsgn PInf = 1"
| "fsgn NInf = - 1"
| "fsgn NaN = 0"

definition inf_of_sign :: "int \<Rightarrow> f64" where
  "inf_of_sign s = (if s < 0 then NInf else PInf)"

text \<open>\<^verbatim>\<open>x * y\<close>, given the multiplication of finite values.\<close>

fun fmul :: "(real \<Rightarrow> real \<Rightarrow> f64) \<Rightarrow> f64 \<Rightarrow> f64 \<Rightarrow> f64" where
  "fmul mul (Fin a) (Fin b) = mul a b"
| "fmul mul NaN _ = NaN"
| "fmul mul _ NaN = NaN"
| "fmul mul a b = (if fsgn a = 0 \<or> fsgn b = 0 then NaN else inf_of_sign (fsgn a * fsgn b))"

text \<open>
  \<^verbatim>\<open>x / y\<close> as numpy does it for float64 scalars, given the division of a finite
  value by a finite value that is not zero: no exception; a finite non-zero value over
  zero is an infinity, zero over zero is \<open>NaN\<close>. (A zero denominator is taken as
  \<open>+0.0\<close>: with \<open>-0.0\<close> the infinity has the other sign.)
\<close>

fun fdiv :: "(real \<Rightarrow> real \<Rightarrow> f64) \<Rightarrow> f64 \<Rightarrow> f64 \<Rightarrow> f64" where
  "fdiv dv (Fin a) (Fin b) =
     (if b = 0 then (if a = 0 then NaN else if 0 < a then PInf else NInf)
      else dv a b)"
| "fdiv dv NaN _ = NaN"
| "fdiv dv _ NaN = NaN"
| "fdiv dv (Fin a) _ = Fin 0"
| "fdiv dv a (Fin b) = inf_of_sign (fsgn a * (if b < 0 then - 1 else 1))"
| "fdiv dv _ _ = NaN"

text \<open>\<^verbatim>\<open>x < y\<close> on float64: false as soon as one side is \<open>NaN\<close>.\<close>

fun flt :: "f64 \<Rightarrow> f64 \<Rightarrow> bool" where
  "flt NaN _ = False"
| "flt _ NaN = False"
| "flt (Fin a) (Fin b) = (a < b)"
| "flt NInf NInf = False"
| "flt NInf _ = True"
| "flt _ NInf = False"
| "flt PInf _ = False"
| "flt _ PInf = True"

text \<open>
  \<^verbatim>\<open>Series.sum()\<close> and \<^verbatim>\<open>groupby(...).sum()\<close> (\<^verbatim>\<open>skipna=True\<close>,
  \<^verbatim>\<open>min_count=0\<close>): the \<open>NaN\<close> cells are left out and the sum of no cell is \<open>0\<close>.
  \<^verbatim>\<open>groupby(...).mean()\<close> leaves the \<open>NaN\<close> cells out and is \<open>NaN\<close> when no cell is
  left.
\<close>

definition dropna :: "f64 list \<Rightarrow> f64 list" where
  "dropna xs = filter (\<lambda>x. \<not> isnan x) xs"

definition series_sum :: "numerics \<Rightarrow> f64 list \<Rightarrow> f64" where
  "series_sum np xs = (if dropna xs = [] then Fin 0 else np_sum np (dropna xs))"

definition group_sum :: "numerics \<Rightarrow> f64 list \<Rightarrow> f64" where
  "group_sum np xs = (if dropna xs = [] then Fin 0 else groupby_sum np (dropna xs))"

definition group_mean :: "numerics \<Rightarrow> f64 list \<Rightarrow> f64" where
  "group_mean np xs = (if dropna xs = [] then NaN else groupby_mean np (dropna xs))"

subsection \<open>Timestamps, rows and frames\<close>

text \<open>
  A parsed timestamp: year, month, day, hour, minute, second. The lexicographic order of
  the tuple is the chronological order.
\<close>

type_synonym datetime = "int \<times> int \<times> int \<times> int \<times> int \<times> int"

definition dt_year :: "datetime \<Rightarrow> int" where
  "dt_year t = fst t"

definition dt_month :: "datetime \<Rightarrow> int" where
  "dt_month t = fst (snd t)"

text \<open>
  One observation of the CSV. The fields are the columns of the file (written here
  without their accents):
  \<^verbatim>\<open>Date - Heure\<close>, \<^verbatim>\<open>Region\<close>, \<^verbatim>\<open>Consommation (MW)\<close>,
  \<^verbatim>\<open>Production_totale\<close>, \<^verbatim>\<open>Nucleaire (MW)\<close>, \<^verbatim>\<open>Thermique (MW)\<close>,
  \<^verbatim>\<open>Hydraulique (MW)\<close>, \<^verbatim>\<open>Solaire (MW)\<close>, \<^verbatim>\<open>Eolien (MW)\<close>,
  \<^verbatim>\<open>Bioenergies (MW)\<close>, \<^verbatim>\<open>Pompage (MW)\<close>, \<^verbatim>\<open>Ech. physiques (MW)\<close>,
  \<^verbatim>\<open>Autonomie\<close>, \<^verbatim>\<open>delta_prod_cons\<close>. The type of the timestamp column is
  a parameter: text as read from the file (\<open>None\<close> for an empty cell), an optional
  \<open>datetime\<close> once line 31 has parsed it. An empty \<^verbatim>\<open>Region\<close> cell is \<open>None\<close>.
\<close>

record 'ts obs =
  Date_Heure :: 'ts
  Region :: "string option"
  Consommation_MW :: f64
  Production_totale :: f64
  Nucleaire_MW :: f64
  Thermique_MW :: f64
  Hydraulique_MW :: f64
  Solaire_MW :: f64
  Eolien_MW :: f64
  Bioenergies_MW :: f64
  Pompage_MW :: f64
  Ech_physiques_MW :: f64
  Autonomie :: f64
  delta_prod_cons :: f64

text \<open>A row after lines 31 to 35: the columns \<^verbatim>\<open>Annee\<close> and \<^verbatim>\<open>Mois\<close> are added.\<close>

record erow = "datetime option obs" +
  Annee :: "int option"
  Mois :: "int option"

text \<open>
  A column name: its Unicode code points. \<open>ascii\<close> gives the name written with
  characters below 128.
\<close>

type_synonym name = "nat list"

definition ascii :: "string \<Rightarrow> name" where
  "ascii s = map of_char s"

text \<open>The frame \<^verbatim>\<open>pd.read_csv\<close> returns: the header as read, and the rows.\<close>

record csv =
  columns :: "name list"
  records :: "string option obs list"

text \<open>
  A column assigned by name after the enrichment (\<^verbatim>\<open>frame["delta"] = ...\<close>) holds
  numbers, or the month periods of line 80 (\<^verbatim>\<open>dt.to_period("M").astype(str)\<close>, kept
  as the year and month the text denotes, \<open>None\<close> for \<^verbatim>\<open>NaT\<close>).
\<close>

datatype cell = Num f64 | Period "(int \<times> int) option"

text \<open>
  A frame after the enrichment: its rows, and the columns assigned to it later, by name,
  in the order of their assignment.
\<close>

record frame =
  rows :: "erow list"
  derived :: "(string \<times> cell list) list"

subsection \<open>Lines 16 to 35: schema check and temporal enrichment\<close>

text \<open>
  \<^verbatim>\<open>str.strip()\<close> removes the leading and the trailing whitespace: the code points
  for which \<^verbatim>\<open>str.isspace\<close> holds, U+0009 to U+000D, U+001C to U+0020, U+0085,
  U+00A0, U+1680, U+2000 to U+200A, U+2028, U+2029, U+202F, U+205F and U+3000.
\<close>

definition isspace :: "nat \<Rightarrow> bool" where
  "isspace c =
     ((9 \<le> c \<and> c \<le> 13) \<or> (28 \<le> c \<and> c \<le> 32) \<or> c = 133 \<or> c = 160 \<or> c = 5760
      \<or> (8192 \<le> c \<and> c \<le> 8202) \<or> c = 8232 \<or> c = 8233 \<or> c = 8239 \<or> c = 8287
      \<or> c = 12288)"

definition strip :: "name \<Rightarrow> name" where
  "strip s = rev (dropWhile isspace (rev (dropWhile isspace s)))"

text \<open>Line 23: \<^verbatim>\<open>"Date - Heure" not in df.columns\<close>, on the header as read.\<close>

definition colonne_absente :: "name list \<Rightarrow> bool" where
  "colonne_absente cols = (ascii ''Date - Heure'' \<notin> set cols)"

text \<open>
  Lines 28, 34 and 35 on the column index: every name is trimmed; a column assigned under
  a new name goes after the existing ones (\<^verbatim>\<open>Annee\<close> is written with U+00E9).
\<close>

definition assign_name :: "name \<Rightarrow> name list \<Rightarrow> name list" where
  "assign_name n cols = (if n \<in> set cols then cols else cols @ [n])"

definition enriched_columns :: "name list \<Rightarrow> name list" where
  "enriched_columns cols =
     assign_name (ascii ''Mois'') (assign_name [65, 110, 110, 233, 101] (map strip cols))"

text \<open>
  Line 31: \<^verbatim>\<open>pd.to_datetime(df["Date - Heure"], errors="coerce")\<close>. An empty cell
  and a text the parser rejects both become \<^verbatim>\<open>NaT\<close>.
\<close>

definition coerce_datetime :: "(string \<Rightarrow> datetime option) \<Rightarrow> string option \<Rightarrow> datetime option" where
  "coerce_datetime to_datetime c = (case c of None \<Rightarrow> None | Some s \<Rightarrow> to_datetime s)"

text \<open>
  Lines 31, 34 and 35 on one row: the timestamp is replaced by its parsed value, and
  \<^verbatim>\<open>.dt.year\<close> and \<^verbatim>\<open>.dt.month\<close> of that value are stored (\<open>NaN\<close> for \<^verbatim>\<open>NaT\<close>).
\<close>

definition enrich_row :: "(string \<Rightarrow> datetime option) \<Rightarrow> string option obs \<Rightarrow> erow" where
  "enrich_row to_datetime r =
     (let d = coerce_datetime to_datetime (Date_Heure r) in
      \<lparr>Date_Heure = d,
       Region = Region r,
       Consommation_MW = Consommation_MW r,
       Production_totale = Production_totale r,
       Nucleaire_MW = Nucleaire_MW r,
       Thermique_MW = Thermique_MW r,
       Hydraulique_MW = Hydraulique_MW r,
       Solaire_MW = Solaire_MW r,
       Eolien_MW = Eolien_MW r,
       Bioenergies_MW = Bioenergies_MW r,
       Pompage_MW = Pompage_MW r,
       Ech_physiques_MW = Ech_physiques_MW r,
       Autonomie = Autonomie r,
       delta_prod_cons = delta_prod_cons r,
       Annee = map_option dt_year d,
       Mois = map_option dt_month d\<rparr>)"

definition temporal_enrichment :: "(string \<Rightarrow> datetime option) \<Rightarrow> string option obs list \<Rightarrow> erow list" where
  "temporal_enrichment to_datetime rs = map (enrich_row to_datetime) rs"

subsection \<open>Lines 47 to 51: sidebar and filter\<close>

datatype py_error = ValueError | OverflowError

text \<open>
  \<^verbatim>\<open>int(x)\<close> on a float64: truncation towards zero; \<^verbatim>\<open>OverflowError\<close> on an
  infinity, \<^verbatim>\<open>ValueError\<close> on \<open>NaN\<close>.
\<close>

fun py_int :: "f64 \<Rightarrow> py_error + int" where
  "py_int (Fin a) = Inr (if 0 \<le> a then \<lfloor>a\<rfloor> else \<lceil>a\<rceil>)"
| "py_int NaN = Inl ValueError"
| "py_int _ = Inl OverflowError"

text \<open>
  A group-by drops the rows whose key is missing and orders the groups by key
  (\<^verbatim>\<open>dropna=True\<close>, \<^verbatim>\<open>sort=True\<close>).
\<close>

definition groupby_keys :: "('a \<Rightarrow> 'k::linorder option) \<Rightarrow> 'a list \<Rightarrow> 'k list" where
  "groupby_keys key xs = sort (remdups (List.map_filter key xs))"

definition group :: "('a \<Rightarrow> 'k option) \<Rightarrow> 'k \<Rightarrow> 'a list \<Rightarrow> 'a list" where
  "group key k xs = filter (\<lambda>x. key x = Some k) xs"

text \<open>Line 47: \<^verbatim>\<open>sorted(df["Region"].dropna().unique())\<close>.\<close>

definition regions :: "erow list \<Rightarrow> string list" where
  "regions df = groupby_keys Region df"

text \<open>
  Line 49: the bounds of the slider, \<^verbatim>\<open>int(df["Annee"].min())\<close> and
  \<^verbatim>\<open>int(df["Annee"].max())\<close>. Without any year the minimum is \<open>NaN\<close> and \<^verbatim>\<open>int\<close>
  raises.
\<close>

definition slider_bounds :: "erow list \<Rightarrow> py_error + (int \<times> int)" where
  "slider_bounds df =
     (case List.map_filter Annee df of
        [] \<Rightarrow> Inl ValueError
      | y # ys \<Rightarrow> Inr (fold min ys y, fold max ys y))"

text \<open>
  Line 51: \<^verbatim>\<open>df[(df["Region"] == region) & (df["Annee"].between(*annee))]\<close>. Both
  comparisons are false on a missing cell; \<^verbatim>\<open>between\<close> includes both ends. Indexing
  by a boolean mask keeps the rows at the true positions, in their order, in every column.
\<close>

definition eq_region :: "string option \<Rightarrow> string option \<Rightarrow> bool" where
  "eq_region c region = (case c of None \<Rightarrow> False | Some a \<Rightarrow> region = Some a)"

definition between :: "int option \<Rightarrow> int \<Rightarrow> int \<Rightarrow> bool" where
  "between c left right = (case c of None \<Rightarrow> False | Some y \<Rightarrow> left \<le> y \<and> y \<le> right)"

definition boolean_index :: "bool list \<Rightarrow> 'a list \<Rightarrow> 'a list" where
  "boolean_index m xs = map snd (filter fst (zip m xs))"

definition getitem_mask :: "frame \<Rightarrow> bool list \<Rightarrow> frame" where
  "getitem_mask f m =
     \<lparr>rows = boolean_index m (rows f),
      derived = map (\<lambda>(name, col). (name, boolean_index m col)) (derived f)\<rparr>"

definition df_filtered :: "frame \<Rightarrow> string option \<Rightarrow> int \<times> int \<Rightarrow> frame" where
  "df_filtered df region annee =
     getitem_mask df
       (map2 (\<and>)
          (map (\<lambda>r. eq_region (Region r) region) (rows df))
          (map (\<lambda>r. between (Annee r) (fst annee) (snd annee)) (rows df)))"

subsection \<open>Aggregates of the pages\<close>

text \<open>
  Lines 118 and 163: \<^verbatim>\<open>groupby("Date - Heure")[["Consommation (MW)",
  "Production_totale"]].sum().reset_index()\<close>, one row per timestamp. Lines 119 and
  164 add the column \<^verbatim>\<open>delta\<close> to that new frame.
\<close>

record nat_sums =
  nat_Date_Heure :: datetime
  nat_Consommation_MW :: f64
  nat_Production_totale :: f64

record nat_row = nat_sums +
  delta :: f64

definition groupby_Date_Heure_sum :: "numerics \<Rightarrow> erow list \<Rightarrow> nat_sums list" where
  "groupby_Date_Heure_sum np rs =
     map (\<lambda>t. \<lparr>nat_Date_Heure = t,
                nat_Consommation_MW = group_sum np (map Consommation_MW (group Date_Heure t rs)),
                nat_Production_totale = group_sum np (map Production_totale (group Date_Heure t rs))\<rparr>)
         (groupby_keys Date_Heure rs)"

definition add_delta :: "numerics \<Rightarrow> nat_sums \<Rightarrow> nat_row" where
  "add_delta np r =
     \<lparr>nat_Date_Heure = nat_Date_Heure r,
      nat_Consommation_MW = nat_Consommation_MW r,
      nat_Production_totale = nat_Production_totale r,
      delta = fsub (np_add np) (nat_Production_totale r) (nat_Consommation_MW r)\<rparr>"

definition df_nat :: "numerics \<Rightarrow> erow list \<Rightarrow> nat_row list" where
  "df_nat np df = map (add_delta np) (groupby_Date_Heure_sum np df)"

text \<open>\<^verbatim>\<open>.dt.month.isin([...])\<close>: false on \<^verbatim>\<open>NaT\<close>.\<close>

definition month_isin :: "int list \<Rightarrow> datetime option \<Rightarrow> bool" where
  "month_isin ms d = (case d of None \<Rightarrow> False | Some t \<Rightarrow> dt_month t \<in> set ms)"

text \<open>
  Lines 145 and 266: \<^verbatim>\<open>.apply(lambda x: -x if x < 0 else 0).sum()\<close>.
\<close>

definition deficit :: "numerics \<Rightarrow> f64 list \<Rightarrow> f64" where
  "deficit np xs = series_sum np (map (\<lambda>x. if flt x (Fin 0) then fneg x else Fin 0) xs)"

text \<open>Line 138: \<^verbatim>\<open>(df_nat["delta"] < 0).sum()\<close>.\<close>

definition neg_count :: "nat_row list \<Rightarrow> nat" where
  "neg_count n = length (filter (\<lambda>r. flt (delta r) (Fin 0)) n)"

text \<open>Line 189: the ratio of two column sums of the filtered frame.\<close>

definition dependance :: "numerics \<Rightarrow> frame \<Rightarrow> f64" where
  "dependance np f =
     fdiv (np_divide np)
       (series_sum np (map Ech_physiques_MW (rows f)))
       (series_sum np (map Consommation_MW (rows f)))"

text \<open>
  \<^verbatim>\<open>groupby("Region")[c].mean()\<close>: a series indexed by the region labels, in their
  order, with the mean of column \<open>c\<close> over the rows of each region.
\<close>

definition region_mean :: "numerics \<Rightarrow> (erow \<Rightarrow> f64) \<Rightarrow> erow list \<Rightarrow> string \<Rightarrow> f64" where
  "region_mean np c rs k = group_mean np (map c (group Region k rs))"

definition groupby_Region_mean :: "numerics \<Rightarrow> (erow \<Rightarrow> f64) \<Rightarrow> erow list \<Rightarrow> (string \<times> f64) list" where
  "groupby_Region_mean np c rs = map (\<lambda>k. (k, region_mean np c rs k)) (groupby_keys Region rs)"

text \<open>
  \<^verbatim>\<open>Series.nsmallest(n)\<close> (\<^verbatim>\<open>keep="first"\<close>): the \<open>n\<close> entries with the smallest
  values, in ascending order of value, entries of equal value in their order in the
  series; the entries whose value is \<open>NaN\<close> come after all others. \<open>rank\<close> is the key
  of that order.
\<close>

fun rank :: "f64 \<Rightarrow> nat \<times> real" where
  "rank NInf = (0, 0)"
| "rank (Fin a) = (1, a)"
| "rank PInf = (2, 0)"
| "rank NaN = (3, 0)"

definition nsmallest :: "nat \<Rightarrow> ('k \<times> f64) list \<Rightarrow> ('k \<times> f64) list" where
  "nsmallest n s = take n (sort_key (\<lambda>e. rank (snd e)) s)"

text \<open>Line 256.\<close>

definition top_risque :: "numerics \<Rightarrow> erow list \<Rightarrow> string list" where
  "top_risque np df = map fst (nsmallest 5 (groupby_Region_mean np delta_prod_cons df))"

text \<open>Line 260: \<^verbatim>\<open>df["Region"].isin(top_risque)\<close>, false on a missing region.\<close>

definition region_isin :: "string list \<Rightarrow> string option \<Rightarrow> bool" where
  "region_isin ks c = (case c of None \<Rightarrow> False | Some a \<Rightarrow> a \<in> set ks)"

subsection \<open>Frames as objects\<close>

text \<open>
  The names of the script (\<^verbatim>\<open>df\<close>, \<^verbatim>\<open>df_filtered\<close>, \<^verbatim>\<open>df_month\<close>, ...) refer to
  frame objects, and an assignment \<^verbatim>\<open>frame[name] = column\<close> changes the object in
  place. The objects live in a heap, a list indexed by reference. Indexing by a mask and
  \<^verbatim>\<open>.copy()\<close> build a new object; \<open>setitem\<close> overwrites the object it is given. A
  column assigned under a new name goes after the existing ones; under an existing name
  it replaces the column.
\<close>

type_synonym ref = nat

type_synonym heap = "frame list"

definition new :: "frame \<Rightarrow> heap \<Rightarrow> ref \<times> heap" where
  "new f h = (length h, h @ [f])"

definition copy :: "ref \<Rightarrow> heap \<Rightarrow> ref \<times> heap" where
  "copy p h = new (h ! p) h"

definition getitem :: "ref \<Rightarrow> (erow \<Rightarrow> bool) \<Rightarrow> heap \<Rightarrow> ref \<times> heap" where
  "getitem p cond h = new (getitem_mask (h ! p) (map cond (rows (h ! p)))) h"

definition setitem :: "ref \<Rightarrow> string \<Rightarrow> cell list \<Rightarrow> heap \<Rightarrow> heap" where
  "setitem p name col h =
     h[p := (h ! p)\<lparr>derived := AList.update name col (derived (h ! p))\<rparr>]"

text \<open>Reading an assigned column; its numbers.\<close>

definition column :: "frame \<Rightarrow> string \<Rightarrow> cell list" where
  "column f name = (case map_of (derived f) name of None \<Rightarrow> [] | Some col \<Rightarrow> col)"

fun num :: "cell \<Rightarrow> f64" where
  "num (Num x) = x"
| "num (Period _) = NaN"

subsection \<open>Lines 53 to 280: the pages\<close>

datatype page =
    Accueil | Exploration | Visualisations | Risque_national | Focus_Hiver
  | Focus_ENR | Synthese | Conclusion | Scenario_2030

text \<open>
  What a run hands to the calls that display data, one element per call:
  the header (lines 19 and 20), the error of line 24, the first rows (line 38);
  the filtered frame (line 71); the filtered frame with its \<^verbatim>\<open>delta\<close> column
  (line 91); \<^verbatim>\<open>df_nat\<close> (line 128), its winter rows (line 134), \<^verbatim>\<open>neg_count\<close>
  (line 139), the rows of negative \<^verbatim>\<open>delta\<close> (line 141) and \<^verbatim>\<open>int(score)\<close>
  (line 146); \<^verbatim>\<open>df_hiver_nat\<close> (line 167); \<^verbatim>\<open>dependance\<close> (line 190, which
  displays it as a percentage); \<^verbatim>\<open>top_risque\<close> (line 257), \<^verbatim>\<open>df_2030\<close>
  (line 264) and \<^verbatim>\<open>int(total_deficit)\<close> (line 267). The titles and texts, the group
  means that only feed a chart (\<^verbatim>\<open>monthly\<close>, \<^verbatim>\<open>df_pompage\<close>, \<^verbatim>\<open>prod_filtres\<close>,
  \<^verbatim>\<open>df_risk\<close>, \<^verbatim>\<open>enr_reg\<close>, \<^verbatim>\<open>df_carte\<close>) and the rounded metrics
  \<^verbatim>\<open>auto\<close> and \<^verbatim>\<open>delta\<close> of lines 185 to 188 are left out: they read frames, build
  new values and raise nothing.
\<close>

datatype element =
    Colonnes_disponibles "name list"
  | Colonne_introuvable
  | Apercu "erow list"
  | Donnees_filtrees frame
  | Desequilibre_mensuel frame
  | Desequilibre_national "nat_row list"
  | Zoom_hivers "nat_row list"
  | Situations_critiques nat
  | Desequilibres_negatifs "nat_row list"
  | MW_cumules int
  | Desequilibre_hiver "nat_row list"
  | Dependance_aux_echanges f64
  | Regions_selectionnees "string list"
  | Evolution_simulee frame

text \<open>Line 80: \<^verbatim>\<open>.dt.to_period("M")\<close>.\<close>

definition to_period_M :: "datetime option \<Rightarrow> (int \<times> int) option" where
  "to_period_M d = map_option (\<lambda>t. (dt_year t, dt_month t)) d"

text \<open>
  A metric whose label is \<^verbatim>\<open>int(x)\<close> (lines 146 and 267): the elements shown before
  it, then the metric, or the exception of \<^verbatim>\<open>int\<close>.
\<close>

definition then_int_metric :: "element list \<Rightarrow> f64 \<Rightarrow> element list \<times> py_error option" where
  "then_int_metric shown_before x =
     (case py_int x of
        Inl e \<Rightarrow> (shown_before, Some e)
      | Inr i \<Rightarrow> (shown_before @ [MW_cumules i], None))"

text \<open>
  One page, given the references of \<^verbatim>\<open>df\<close> and \<^verbatim>\<open>df_filtered\<close> and the heap:
  the elements it shows, the exception that ends it if there is one, and the heap it
  leaves. The page Synthese always ends at line 209: \<^verbatim>\<open>px.choropleth\<close> rejects
  \<^verbatim>\<open>locationmode="geo"\<close> with a \<^verbatim>\<open>ValueError\<close>, after the metrics of lines 187 to
  190 have been shown.
\<close>

fun render :: "numerics \<Rightarrow> page \<Rightarrow> ref \<Rightarrow> ref \<Rightarrow> heap \<Rightarrow> (element list \<times> py_error option) \<times> heap" where
  "render np Accueil df dff h = (([], None), h)"
| "render np Exploration df dff h = (([Donnees_filtrees (h ! dff)], None), h)"
| "render np Visualisations df dff h =
     (let (df_month, h1) = copy dff h;
          h2 = setitem df_month ''Mois''
                 (map (\<lambda>r. Period (to_period_M (Date_Heure r))) (rows (h1 ! df_month))) h1;
          h3 = setitem dff ''delta''
                 (map (\<lambda>r. Num (fsub (np_add np) (Production_totale r) (Consommation_MW r)))
                    (rows (h2 ! dff))) h2
      in (([Desequilibre_mensuel (h3 ! dff)], None), h3))"
| "render np Risque_national df dff h =
     (let n = df_nat np (rows (h ! df));
          df_hiver = filter (\<lambda>r. month_isin [12, 1, 2] (Some (nat_Date_Heure r))) n;
          score = deficit np (map delta n)
      in (then_int_metric
            [Desequilibre_national n, Zoom_hivers df_hiver, Situations_critiques (neg_count n),
             Desequilibres_negatifs (filter (\<lambda>r. flt (delta r) (Fin 0)) n)]
            score, h))"
| "render np Focus_Hiver df dff h =
     (let (df_hiver, h1) = getitem df (\<lambda>r. month_isin [12, 1, 2] (Date_Heure r)) h;
          df_hiver_nat = df_nat np (rows (h1 ! df_hiver))
      in (([Desequilibre_hiver df_hiver_nat], None), h1))"
| "render np Focus_ENR df dff h =
     (let (df_enr, h1) = copy df h;
          h2 = setitem df_enr ''Prod_ENR''
                 (map (\<lambda>r. Num (series_sum np
                                  [Solaire_MW r, Eolien_MW r, Hydraulique_MW r, Bioenergies_MW r]))
                    (rows (h1 ! df_enr))) h1
      in (([], None), h2))"
| "render np Synthese df dff h =
     (([Dependance_aux_echanges (dependance np (h ! dff))], Some ValueError), h)"
| "render np Conclusion df dff h = (([], None), h)"
| "render np Scenario_2030 df dff h =
     (let top = top_risque np (rows (h ! df));
          (selected, h1) = getitem df (\<lambda>r. month_isin [1, 2] (Date_Heure r) \<and> region_isin top (Region r)) h;
          (df_2030, h2) = copy selected h1;
          h3 = setitem df_2030 ''Simul_delta''
                 (map (\<lambda>r. Num (fmul (np_multiply np) (delta_prod_cons r) (Fin (12 / 10))))
                    (rows (h2 ! df_2030))) h2;
          total_deficit = deficit np (map num (column (h3 ! df_2030) ''Simul_delta''))
      in (then_int_metric [Regions_selectionnees top, Evolution_simulee (h3 ! df_2030)] total_deficit,
          h3))"

subsection \<open>One run of the script\<close>

text \<open>
  What a run shows, how it ends, the column index of \<^verbatim>\<open>df\<close>, and the frame objects it
  leaves. \<^verbatim>\<open>st.stop()\<close> ends the run at line 25; an exception ends it where it is
  raised.
\<close>

datatype status = Completed | Stopped | Raised py_error

record run =
  shown :: "element list"
  status :: status
  df_columns :: "name list"
  objects :: heap

definition app :: "numerics \<Rightarrow> (string \<Rightarrow> datetime option) \<Rightarrow> csv \<Rightarrow> page \<Rightarrow> string option \<Rightarrow> int \<times> int \<Rightarrow> run" where
  "app np to_datetime file page region annee =
     (let shown0 = [Colonnes_disponibles (columns file)] in
      if colonne_absente (columns file)
      then \<lparr>shown = shown0 @ [Colonne_introuvable], status = Stopped,
            df_columns = columns file, objects = []\<rparr>
      else
        let names = enriched_columns (columns file);
            (df, h0) = new \<lparr>rows = temporal_enrichment to_datetime (records file), derived = []\<rparr> [];
            shown1 = shown0 @ [Apercu (take 5 (rows (h0 ! df)))]
        in case slider_bounds (rows (h0 ! df)) of
             Inl e \<Rightarrow> \<lparr>shown = shown1, status = Raised e, df_columns = names, objects = h0\<rparr>
           | Inr bounds \<Rightarrow>
               let (dff, h1) = new (df_filtered (h0 ! df) region annee) h0;
                   ((shown2, raised), h2) = render np page df dff h1
               in \<lparr>shown = shown1 @ shown2,
                   status = (case raised of None \<Rightarrow> Completed | Some e \<Rightarrow> Raised e),
                   df_columns = names, objects = h2\<rparr>)"

subsection \<open>Sample data\<close>

text \<open>
  Arithmetic without rounding, for the examples. The sample files hold integers of small
  magnitude and every sum, difference, mean and product computed from them below is a
  number that float64 represents, so that binary64 arithmetic gives these results too.
\<close>

definition exact_add :: "real \<Rightarrow> real \<Rightarrow> f64" where
  "exact_add a b = Fin (a + b)"

definition exact_multiply :: "real \<Rightarrow> real \<Rightarrow> f64" where
  "exact_multiply a b = Fin (a * b)"

definition exact_divide :: "real \<Rightarrow> real \<Rightarrow> f64" where
  "exact_divide a b = Fin (a / b)"

definition exact_sum :: "f64 list \<Rightarrow> f64" where
  "exact_sum xs = foldl (fadd exact_add) (Fin 0) xs"

definition exact_mean :: "f64 list \<Rightarrow> f64" where
  "exact_mean xs = fdiv exact_divide (exact_sum xs) (Fin (of_nat (length xs)))"

definition exact :: numerics where
  "exact = \<lparr>np_add = exact_add, np_multiply = exact_multiply, np_divide = exact_divide,
            np_sum = exact_sum, groupby_sum = exact_sum, groupby_mean = exact_mean\<rparr>"

text \<open>
  A small file: a parser that accepts two texts, and observations given by timestamp,
  region, consumption, production, physical exchanges and \<^verbatim>\<open>delta_prod_cons\<close> (the
  other numeric cells are empty).
\<close>

definition sample_to_datetime :: "string \<Rightarrow> datetime option" where
  "sample_to_datetime s =
     (if s = ''2020-01-15 10:00'' then Some (2020, 1, 15, 10, 0, 0)
      else if s = ''2021-07-01 00:00'' then Some (2021, 7, 1, 0, 0, 0)
      else None)"

definition sample_obs :: "'ts \<Rightarrow> string option \<Rightarrow> f64 \<Rightarrow> f64 \<Rightarrow> f64 \<Rightarrow> f64 \<Rightarrow> 'ts obs" where
  "sample_obs t r c p e d =
     \<lparr>Date_Heure = t, Region = r, Consommation_MW = c, Production_totale = p,
      Nucleaire_MW = NaN, Thermique_MW = NaN, Hydraulique_MW = NaN, Solaire_MW = NaN,
      Eolien_MW = NaN, Bioenergies_MW = NaN, Pompage_MW = NaN, Ech_physiques_MW = e,
      Autonomie = NaN, delta_prod_cons = d\<rparr>"

definition sample_records :: "string option obs list" where
  "sample_records =
     [sample_obs (Some ''2020-01-15 10:00'') (Some ''Bretagne'') (Fin 1000) (Fin 950) (Fin 50) (Fin (- 50)),
      sample_obs (Some ''2020-01-15 10:00'') (Some ''Normandie'') (Fin 0) (Fin 10) (Fin 5) (Fin 10),
      sample_obs (Some ''pas une date'') (Some ''Bretagne'') (Fin 10) (Fin 20) (Fin 3) (Fin 10),
      sample_obs (Some ''2021-07-01 00:00'') (Some ''Bretagne'') (Fin 20) NaN (Fin 1) (Fin 10)]"

definition sample_file :: csv where
  "sample_file =
     \<lparr>columns = [ascii ''Date - Heure'', ascii ''Region '', ascii ''Consommation (MW)''],
      records = sample_records\<rparr>"

text \<open>The same file with a space before the name of the timestamp column.\<close>

definition padded_file :: csv where
  "padded_file =
     \<lparr>columns = [ascii '' Date - Heure'', ascii ''Region '', ascii ''Consommation (MW)''],
      records = sample_records\<rparr>"

definition sample_df :: "erow list" where
  "sample_df = temporal_enrichment sample_to_datetime sample_records"

definition sample_frame :: frame where
  "sample_frame = \<lparr>rows = sample_df, derived = []\<rparr>"

text \<open>
  A file with eight regions: two of them with the same mean of \<^verbatim>\<open>delta_prod_cons\<close>, one
  without any value, and a row without region.
\<close>

definition regional_records :: "string option obs list" where
  "regional_records =
     [sample_obs None (Some ''Occitanie'') NaN NaN NaN (Fin 20),
      sample_obs None (Some ''Normandie'') NaN NaN NaN (Fin (- 100)),
      sample_obs None (Some ''Bretagne'') NaN NaN NaN (Fin (- 80)),
      sample_obs None (Some ''Corse'') NaN NaN NaN (Fin (- 50)),
      sample_obs None (Some ''Corse'') NaN NaN NaN NaN,
      sample_obs None None NaN NaN NaN (Fin (- 1000)),
      sample_obs None (Some ''Grand Est'') NaN NaN NaN (Fin 10),
      sample_obs None (Some ''Mayotte'') NaN NaN NaN NaN,
      sample_obs None (Some ''Hauts-de-France'') NaN NaN NaN (Fin (- 200)),
      sample_obs None (Some ''Normandie'') NaN NaN NaN (Fin 0),
      sample_obs None (Some ''Ile-de-France'') NaN NaN NaN (Fin (- 300))]"

definition regional_df :: "erow list" where
  "regional_df = temporal_enrichment sample_to_datetime regional_records"

subsection \<open>Notions of the specification\<close>

text \<open>
  The schema check as the specification words it: the timestamp column is looked up by
  exact name after the names have been trimmed. (The script's check is
  \<open>colonne_absente\<close>, on the names as read.)
\<close>

definition colonne_absente_apres_strip :: "name list \<Rightarrow> bool" where
  "colonne_absente_apres_strip cols = (ascii ''Date - Heure'' \<notin> set (map strip cols))"


section \<open>Properties\<close>

subsection \<open>Evaluation of the sample data\<close>

lemmas sample_defs =
  sample_frame_def sample_df_def sample_file_def padded_file_def sample_records_def
  regional_df_def regional_records_def
  sample_obs_def sample_to_datetime_def temporal_enrichment_def enrich_row_def
  coerce_datetime_def dt_year_def dt_month_def

lemmas exact_defs =
  exact_def exact_add_def exact_multiply_def exact_divide_def exact_sum_def exact_mean_def

text \<open>
  On finite cells the sample arithmetic is the arithmetic of the real numbers: its sum is
  their sum, its mean their sum divided by their number.
\<close>

lemma foldl_exact_add: "foldl (fadd exact_add) (Fin s) (map Fin as) = Fin (s + sum_list as)"
  by (induction as arbitrary: s) (simp_all add: exact_add_def add.assoc)

lemma exact_sum_finite: "exact_sum (map Fin as) = Fin (sum_list as)"
  using foldl_exact_add [of 0 as] by (simp add: exact_sum_def)

lemma exact_mean_finite:
  "as \<noteq> [] \<Longrightarrow> exact_mean (map Fin as) = Fin (sum_list as / of_nat (length as))"
  by (simp add: exact_mean_def exact_sum_finite exact_divide_def)

subsection \<open>Indexing by a mask\<close>

lemma boolean_index_Nil [simp]: "boolean_index [] xs = []" "boolean_index m [] = []"
  by (simp_all add: boolean_index_def)

lemma boolean_index_Cons:
  "boolean_index (b # m) (x # xs) = (if b then x # boolean_index m xs else boolean_index m xs)"
  by (simp add: boolean_index_def)

lemma boolean_index_map: "boolean_index (map P xs) xs = filter P xs"
  by (induction xs) (simp_all add: boolean_index_Cons)

lemma mask_conj: "map2 (\<and>) (map f xs) (map g xs) = map (\<lambda>x. f x \<and> g x) xs"
  by (induction xs) simp_all

lemma boolean_index_all_True:
  "boolean_index (map P (filter P xs)) ys = take (length (filter P xs)) ys"
proof (induction xs arbitrary: ys)
  case Nil
  then show ?case by simp
next
  case (Cons x xs)
  show ?case
  proof (cases ys)
    case Nil
    then show ?thesis by simp
  next
    case (Cons y ys')
    with Cons.IH show ?thesis by (simp add: boolean_index_Cons)
  qed
qed

lemma length_boolean_index: "length (boolean_index (map P xs) ys) \<le> length (filter P xs)"
proof (induction xs arbitrary: ys)
  case Nil
  then show ?case by simp
next
  case (Cons x xs)
  show ?case
  proof (cases ys)
    case Nil
    then show ?thesis by simp
  next
    case (Cons y ys')
    have "length (boolean_index (map P xs) ys') \<le> length (filter P xs)"
      by (rule Cons.IH)
    with Cons show ?thesis by (simp add: boolean_index_Cons)
  qed
qed

lemma boolean_index_twice:
  "boolean_index (map P (filter P xs)) (boolean_index (map P xs) ys) = boolean_index (map P xs) ys"
  by (simp add: boolean_index_all_True length_boolean_index)

lemma rows_getitem_mask: "rows (getitem_mask f (map P (rows f))) = filter P (rows f)"
  by (simp add: getitem_mask_def boolean_index_map)

lemma getitem_mask_twice:
  "getitem_mask (getitem_mask D (map P (rows D))) (map P (rows (getitem_mask D (map P (rows D)))))
   = getitem_mask D (map P (rows D))"
  by (simp add: getitem_mask_def boolean_index_map boolean_index_twice case_prod_unfold comp_def)

subsection \<open>The filter of line 51\<close>

lemma df_filtered_mask:
  "df_filtered D region annee =
     getitem_mask D
       (map (\<lambda>x. eq_region (Region x) region \<and> between (Annee x) (fst annee) (snd annee)) (rows D))"
  by (simp add: df_filtered_def mask_conj)

lemma rows_df_filtered:
  "rows (df_filtered D region annee) =
     filter (\<lambda>x. eq_region (Region x) region \<and> between (Annee x) (fst annee) (snd annee)) (rows D)"
  by (simp add: df_filtered_mask rows_getitem_mask)

text \<open>
  Claim C2. For every frame, selected region \<open>r\<close> and year range \<open>(lo, hi)\<close>, the rows of
  the filtered frame are exactly the rows of the input whose region is \<open>r\<close> and whose year
  is present and lies between \<open>lo\<close> and \<open>hi\<close>, both ends included, in the order of the
  input (each as often as in the input).
\<close>

theorem df_filtered_exact:
  "rows (df_filtered D (Some r) (lo, hi)) =
     filter (\<lambda>x. Region x = Some r \<and> (\<exists>y. Annee x = Some y \<and> lo \<le> y \<and> y \<le> hi)) (rows D)
   \<and> subseq (rows (df_filtered D (Some r) (lo, hi))) (rows D)"
proof -
  have "eq_region (Region x) (Some r) \<and> between (Annee x) lo hi
      \<longleftrightarrow> Region x = Some r \<and> (\<exists>y. Annee x = Some y \<and> lo \<le> y \<and> y \<le> hi)" for x :: erow
    by (auto simp: eq_region_def between_def split: option.splits)
  then show ?thesis by (simp add: rows_df_filtered)
qed

theorem df_filtered_exact_witness:
  "rows (df_filtered sample_frame (Some ''Bretagne'') (2020, 2020)) = [sample_df ! 0]
   \<and> subseq [sample_df ! 0] sample_df"
  using df_filtered_exact [of sample_frame "''Bretagne''" 2020 2020]
  by (simp add: sample_defs)

text \<open>
  Claim C9. The rows of the filtered frame are rows of the input (a subsequence of them),
  and filtering the filtered frame again with the same region and year range returns it
  unchanged.
\<close>

theorem df_filtered_idempotent:
  "set (rows (df_filtered D r y)) \<subseteq> set (rows D)
   \<and> subseq (rows (df_filtered D r y)) (rows D)
   \<and> df_filtered (df_filtered D r y) r y = df_filtered D r y"
proof -
  have "df_filtered (df_filtered D r y) r y = df_filtered D r y"
    unfolding df_filtered_mask by (rule getitem_mask_twice)
  then show ?thesis by (simp add: rows_df_filtered)
qed

theorem df_filtered_idempotent_witness:
  "rows (df_filtered (df_filtered sample_frame (Some ''Bretagne'') (2020, 2020)) (Some ''Bretagne'') (2020, 2020))
     = [sample_df ! 0]
   \<and> set (rows (df_filtered sample_frame (Some ''Bretagne'') (2020, 2020))) \<subseteq> set sample_df"
  using df_filtered_idempotent [of sample_frame "Some ''Bretagne''" "(2020, 2020)"]
  by (simp add: rows_df_filtered eq_region_def between_def sample_defs)

subsection \<open>Temporal enrichment\<close>

text \<open>
  Claim C4. Temporal enrichment returns one row for every row of the file, whatever the
  timestamps are: a timestamp the parser rejects becomes missing, with the year and the
  month. In every enriched row the year and the month are both present or both missing
  (and they are missing exactly when the timestamp is).
\<close>

theorem temporal_enrichment_year_month:
  "length (temporal_enrichment to_datetime rs) = length rs
   \<and> (\<forall>i < length rs.
        (Annee (temporal_enrichment to_datetime rs ! i) = None
           \<longleftrightarrow> Mois (temporal_enrichment to_datetime rs ! i) = None)
      \<and> (Annee (temporal_enrichment to_datetime rs ! i) = None
           \<longleftrightarrow> Date_Heure (temporal_enrichment to_datetime rs ! i) = None)
      \<and> (\<forall>s. Date_Heure (rs ! i) = Some s \<and> to_datetime s = None \<longrightarrow>
             Date_Heure (temporal_enrichment to_datetime rs ! i) = None
           \<and> Annee (temporal_enrichment to_datetime rs ! i) = None
           \<and> Mois (temporal_enrichment to_datetime rs ! i) = None))"
  by (simp add: temporal_enrichment_def enrich_row_def coerce_datetime_def Let_def)

theorem temporal_enrichment_year_month_witness:
  "(2::nat) < length sample_records
   \<and> Date_Heure (sample_records ! 2) = Some ''pas une date''
   \<and> sample_to_datetime ''pas une date'' = None
   \<and> Date_Heure (sample_df ! 2) = None \<and> Annee (sample_df ! 2) = None \<and> Mois (sample_df ! 2) = None
   \<and> Annee (sample_df ! 0) = Some 2020 \<and> Mois (sample_df ! 0) = Some 1"
  using temporal_enrichment_year_month [of sample_to_datetime sample_records]
  by (simp add: sample_defs)

subsection \<open>Runs\<close>

lemma app_Stopped:
  assumes "colonne_absente (columns file)"
  shows "app np td file page region annee =
     \<lparr>shown = [Colonnes_disponibles (columns file), Colonne_introuvable], status = Stopped,
      df_columns = columns file, objects = []\<rparr>"
  using assms by (simp add: app_def)

lemma shown_app:
  "shown (app np td file page region annee) =
     (if colonne_absente (columns file) then [Colonnes_disponibles (columns file), Colonne_introuvable]
      else let D = \<lparr>rows = temporal_enrichment td (records file), derived = []\<rparr> in
        [Colonnes_disponibles (columns file), Apercu (take 5 (rows D))] @
        (case slider_bounds (rows D) of
           Inl e \<Rightarrow> []
         | Inr b \<Rightarrow> fst (fst (render np page 0 1 [D, df_filtered D region annee]))))"
  by (auto simp: app_def new_def Let_def split: sum.splits prod.splits)

lemma status_app:
  "status (app np td file page region annee) =
     (if colonne_absente (columns file) then Stopped
      else let D = \<lparr>rows = temporal_enrichment td (records file), derived = []\<rparr> in
        (case slider_bounds (rows D) of
           Inl e \<Rightarrow> Raised e
         | Inr b \<Rightarrow> (case snd (fst (render np page 0 1 [D, df_filtered D region annee])) of
                       None \<Rightarrow> Completed | Some e \<Rightarrow> Raised e)))"
  by (auto simp: app_def new_def Let_def split: sum.splits prod.splits)

lemma objects_app:
  assumes "\<not> colonne_absente (columns file)"
  shows "objects (app np td file page region annee) =
     (let D = \<lparr>rows = temporal_enrichment td (records file), derived = []\<rparr> in
      case slider_bounds (rows D) of
        Inl e \<Rightarrow> [D]
      | Inr b \<Rightarrow> snd (render np page 0 1 [D, df_filtered D region annee]))"
  using assms
  by (auto simp: app_def new_def Let_def split: sum.splits prod.splits)

subsection \<open>Schema check\<close>

text \<open>
  Claim C3. The claim places the lookup of \<^verbatim>\<open>Date - Heure\<close> after the trimming of the
  column names. The script trims the names at line 28, to tolerate names written with
  surrounding whitespace, but tests the names as read at line 23, before that: for a file
  whose timestamp column is named with a leading space the column is present after
  trimming, and the run shows the error and stops all the same, with nothing but the
  header and the error shown, and with the names untrimmed. The same file without the
  leading space completes, with the names trimmed and the columns of the year and the
  month added. The same holds of a name surrounded by other whitespace (U+00A0, U+0085, a
  line feed).
\<close>

theorem schema_check_before_strip:
  "\<not> colonne_absente_apres_strip (columns padded_file)
   \<and> colonne_absente (columns padded_file)
   \<and> status (app exact sample_to_datetime padded_file Exploration (Some ''Bretagne'') (2020, 2020))
       = Stopped
   \<and> shown (app exact sample_to_datetime padded_file Exploration (Some ''Bretagne'') (2020, 2020))
       = [Colonnes_disponibles (columns padded_file), Colonne_introuvable]
   \<and> status (app exact sample_to_datetime sample_file Exploration (Some ''Bretagne'') (2020, 2020))
       = Completed
   \<and> df_columns (app exact sample_to_datetime sample_file Exploration (Some ''Bretagne'') (2020, 2020))
       = [ascii ''Date - Heure'', ascii ''Region'', ascii ''Consommation (MW)'',
          [65, 110, 110, 233, 101], ascii ''Mois'']
   \<and> df_columns (app exact sample_to_datetime padded_file Exploration (Some ''Bretagne'') (2020, 2020))
       = columns padded_file
   \<and> \<not> colonne_absente_apres_strip [[160] @ ascii ''Date - Heure'' @ [133, 10]]
   \<and> colonne_absente [[160] @ ascii ''Date - Heure'' @ [133, 10]]"
proof -
  have cols: "\<not> colonne_absente (columns sample_file)" "colonne_absente (columns padded_file)"
    by (simp_all add: colonne_absente_def sample_file_def padded_file_def ascii_def)
  have bounds: "slider_bounds (temporal_enrichment sample_to_datetime (records sample_file))
      = Inr (2020, 2021)"
    by (simp add: slider_bounds_def List.map_filter_def sample_defs)
  have stripped: "\<not> colonne_absente_apres_strip (columns padded_file)"
    by (simp add: colonne_absente_apres_strip_def padded_file_def ascii_def strip_def isspace_def)
  have stopped:
    "status (app exact sample_to_datetime padded_file Exploration (Some ''Bretagne'') (2020, 2020))
       = Stopped"
    "shown (app exact sample_to_datetime padded_file Exploration (Some ''Bretagne'') (2020, 2020))
       = [Colonnes_disponibles (columns padded_file), Colonne_introuvable]"
    "df_columns (app exact sample_to_datetime padded_file Exploration (Some ''Bretagne'') (2020, 2020))
       = columns padded_file"
    by (simp_all add: app_Stopped [OF cols(2)])
  have completed:
    "status (app exact sample_to_datetime sample_file Exploration (Some ''Bretagne'') (2020, 2020))
       = Completed"
    using cols(1) bounds by (simp add: status_app Let_def)
  have names: "enriched_columns (columns sample_file)
       = [ascii ''Date - Heure'', ascii ''Region'', ascii ''Consommation (MW)'',
          [65, 110, 110, 233, 101], ascii ''Mois'']"
    by (simp add: enriched_columns_def assign_name_def sample_file_def ascii_def strip_def
          isspace_def)
  have "df_columns (app exact sample_to_datetime sample_file Exploration (Some ''Bretagne'') (2020, 2020))
       = enriched_columns (columns sample_file)"
    using cols(1) by (simp add: app_def Let_def new_def split: sum.splits prod.splits)
  then have enriched:
    "df_columns (app exact sample_to_datetime sample_file Exploration (Some ''Bretagne'') (2020, 2020))
       = [ascii ''Date - Heure'', ascii ''Region'', ascii ''Consommation (MW)'',
          [65, 110, 110, 233, 101], ascii ''Mois'']"
    unfolding names .
  have unicode: "\<not> colonne_absente_apres_strip [[160] @ ascii ''Date - Heure'' @ [133, 10]]"
    "colonne_absente [[160] @ ascii ''Date - Heure'' @ [133, 10]]"
    by (simp_all add: colonne_absente_apres_strip_def colonne_absente_def ascii_def strip_def
          isspace_def)
  from stripped cols(2) stopped completed enriched unicode show ?thesis by blast
qed

subsection \<open>Sums without the missing cells\<close>

lemma isnan_iff: "isnan v \<longleftrightarrow> v = NaN"
  by (cases v) simp_all

lemma dropna_filter: "dropna xs = filter (\<lambda>v. v \<noteq> NaN) xs"
  by (simp add: dropna_def isnan_iff)

lemma series_sum_filter:
  "series_sum np xs =
     (if filter (\<lambda>v. v \<noteq> NaN) xs = [] then Fin 0 else np_sum np (filter (\<lambda>v. v \<noteq> NaN) xs))"
  by (simp add: series_sum_def dropna_filter)



subsection \<open>The ratio of line 189\<close>

lemma fdiv_by_zero:
  "fdiv dv e (Fin 0) = NaN \<longleftrightarrow> e = Fin 0 \<or> e = NaN"
  "fdiv dv e (Fin 0) \<noteq> NaN \<longrightarrow> fdiv dv e (Fin 0) = PInf \<or> fdiv dv e (Fin 0) = NInf"
  "fdiv dv e (Fin 0) \<noteq> Fin z"
proof -
  show "fdiv dv e (Fin 0) = NaN \<longleftrightarrow> e = Fin 0 \<or> e = NaN"
    by (cases e) (simp_all add: inf_of_sign_def)
  show "fdiv dv e (Fin 0) \<noteq> NaN \<longrightarrow> fdiv dv e (Fin 0) = PInf \<or> fdiv dv e (Fin 0) = NInf"
    by (cases e) (simp_all add: inf_of_sign_def)
  show "fdiv dv e (Fin 0) \<noteq> Fin z"
    by (cases e) (simp_all add: inf_of_sign_def)
qed

lemma shown_Synthese:
  assumes "\<not> colonne_absente (columns file)"
    and "slider_bounds (temporal_enrichment td (records file)) = Inr b"
  shows "shown (app np td file Synthese region annee) =
     [Colonnes_disponibles (columns file),
      Apercu (take 5 (temporal_enrichment td (records file))),
      Dependance_aux_echanges
        (dependance np
           (df_filtered \<lparr>rows = temporal_enrichment td (records file), derived = []\<rparr> region annee))]"
  using assms by (simp add: shown_app Let_def)

lemma status_Synthese:
  assumes "\<not> colonne_absente (columns file)"
    and "slider_bounds (temporal_enrichment td (records file)) = Inr b"
  shows "status (app np td file Synthese region annee) = Raised ValueError"
  using assms by (simp add: status_app Let_def)

text \<open>
  Claim C5, as the specification states it, fails: with a consumption sum of zero and an
  exchange sum that is not zero the ratio is an infinity, not \<open>NaN\<close>. In the sample file
  the only row of Normandie in 2020 has consumption \<open>0\<close> and exchanges \<open>5\<close>, and the page
  shows \<open>5 / 0\<close>, the positive infinity.
\<close>

theorem dependance_zero_consumption_counterexample:
  "map Consommation_MW (rows (df_filtered sample_frame (Some ''Normandie'') (2020, 2020))) = [Fin 0]
   \<and> map Ech_physiques_MW (rows (df_filtered sample_frame (Some ''Normandie'') (2020, 2020))) = [Fin 5]
   \<and> series_sum exact (map Consommation_MW (rows (df_filtered sample_frame (Some ''Normandie'') (2020, 2020))))
       = Fin 0
   \<and> dependance exact (df_filtered sample_frame (Some ''Normandie'') (2020, 2020)) = PInf
   \<and> dependance exact (df_filtered sample_frame (Some ''Normandie'') (2020, 2020)) \<noteq> NaN
   \<and> Dependance_aux_echanges PInf
       \<in> set (shown (app exact sample_to_datetime sample_file Synthese (Some ''Normandie'') (2020, 2020)))"
proof -
  have cols: "\<not> colonne_absente (columns sample_file)"
    by (simp add: colonne_absente_def sample_file_def ascii_def)
  have bounds: "slider_bounds (temporal_enrichment sample_to_datetime (records sample_file))
      = Inr (2020, 2021)"
    by (simp add: slider_bounds_def List.map_filter_def sample_defs)
  have frame: "\<lparr>rows = temporal_enrichment sample_to_datetime (records sample_file), derived = []\<rparr>
      = sample_frame"
    by (simp add: sample_frame_def sample_df_def sample_file_def)
  have cons:
    "map Consommation_MW (rows (df_filtered sample_frame (Some ''Normandie'') (2020, 2020))) = [Fin 0]"
    by (simp add: rows_df_filtered eq_region_def between_def sample_defs)
  have ech:
    "map Ech_physiques_MW (rows (df_filtered sample_frame (Some ''Normandie'') (2020, 2020))) = [Fin 5]"
    by (simp add: rows_df_filtered eq_region_def between_def sample_defs)
  have sum0: "series_sum exact [Fin 0] = Fin 0"
    by (simp add: series_sum_def dropna_def exact_defs)
  have sum5: "series_sum exact [Fin 5] = Fin 5"
    by (simp add: series_sum_def dropna_def exact_defs)
  have dep: "dependance exact (df_filtered sample_frame (Some ''Normandie'') (2020, 2020)) = PInf"
    unfolding dependance_def cons ech sum0 sum5 by simp
  have "shown (app exact sample_to_datetime sample_file Synthese (Some ''Normandie'') (2020, 2020))
      = [Colonnes_disponibles (columns sample_file),
         Apercu (take 5 (temporal_enrichment sample_to_datetime (records sample_file))),
         Dependance_aux_echanges PInf]"
    unfolding shown_Synthese [OF cols bounds] frame dep ..
  then show ?thesis
    unfolding cons ech sum0 dep by simp
qed

text \<open>
  Claim C5, amended. For a filtered frame whose consumption sum is zero (the sum, as the
  library computes it, of the consumption cells that are not \<open>NaN\<close>; zero when there is
  none), the ratio is \<open>NaN\<close> exactly when the exchange sum is zero or \<open>NaN\<close>, as for a
  frame without rows, and an infinity otherwise; it is never a finite number, so never
  zero. Computing it raises nothing: every run that reaches the page Synthese shows it
  (the run ends after that, with the \<^verbatim>\<open>ValueError\<close> of line 209, whatever the
  ratio is).
\<close>

theorem dependance_zero_consumption:
  "((if filter (\<lambda>v. v \<noteq> NaN) (map Consommation_MW (rows f)) = [] then Fin 0
     else np_sum np (filter (\<lambda>v. v \<noteq> NaN) (map Consommation_MW (rows f)))) = Fin 0
    \<longrightarrow>
      (dependance np f = NaN \<longleftrightarrow>
         (if filter (\<lambda>v. v \<noteq> NaN) (map Ech_physiques_MW (rows f)) = [] then Fin 0
          else np_sum np (filter (\<lambda>v. v \<noteq> NaN) (map Ech_physiques_MW (rows f)))) \<in> {Fin 0, NaN})
    \<and> (dependance np f \<noteq> NaN \<longrightarrow> dependance np f = PInf \<or> dependance np f = NInf)
    \<and> \<not> (\<exists>z. dependance np f = Fin z))
   \<and> (\<not> colonne_absente (columns file)
      \<and> slider_bounds (temporal_enrichment td (records file)) = Inr b
    \<longrightarrow>
      Dependance_aux_echanges
        (dependance np
           (df_filtered \<lparr>rows = temporal_enrichment td (records file), derived = []\<rparr> region annee))
        \<in> set (shown (app np td file Synthese region annee))
    \<and> status (app np td file Synthese region annee) = Raised ValueError)"
proof -
  let ?e = "series_sum np (map Ech_physiques_MW (rows f))"
  have 1: "(dependance np f = NaN \<longleftrightarrow> ?e \<in> {Fin 0, NaN})
      \<and> (dependance np f \<noteq> NaN \<longrightarrow> dependance np f = PInf \<or> dependance np f = NInf)
      \<and> \<not> (\<exists>z. dependance np f = Fin z)"
    if zero: "series_sum np (map Consommation_MW (rows f)) = Fin 0"
  proof -
    have d: "dependance np f = fdiv (np_divide np) ?e (Fin 0)"
      by (simp add: dependance_def zero)
    show ?thesis
      unfolding d using fdiv_by_zero [of "np_divide np" ?e] by blast
  qed
  have 2: "Dependance_aux_echanges
        (dependance np
           (df_filtered \<lparr>rows = temporal_enrichment td (records file), derived = []\<rparr> region annee))
        \<in> set (shown (app np td file Synthese region annee))"
    if "\<not> colonne_absente (columns file)"
      and "slider_bounds (temporal_enrichment td (records file)) = Inr b"
    unfolding shown_Synthese [OF that] by simp
  have 3: "status (app np td file Synthese region annee) = Raised ValueError"
    if "\<not> colonne_absente (columns file)"
      and "slider_bounds (temporal_enrichment td (records file)) = Inr b"
    using that by (rule status_Synthese)
  from 1 2 3 show ?thesis
    unfolding series_sum_filter by blast
qed

theorem dependance_zero_consumption_witness:
  "(if filter (\<lambda>v. v \<noteq> NaN)
         (map Consommation_MW (rows (df_filtered sample_frame (Some ''Normandie'') (2020, 2020)))) = []
    then Fin 0
    else np_sum exact (filter (\<lambda>v. v \<noteq> NaN)
         (map Consommation_MW (rows (df_filtered sample_frame (Some ''Normandie'') (2020, 2020)))))) = Fin 0
   \<and> (dependance exact (df_filtered sample_frame (Some ''Normandie'') (2020, 2020)) = PInf
      \<or> dependance exact (df_filtered sample_frame (Some ''Normandie'') (2020, 2020)) = NInf)
   \<and> \<not> colonne_absente (columns sample_file)
   \<and> slider_bounds (temporal_enrichment sample_to_datetime (records sample_file)) = Inr (2020, 2021)
   \<and> Dependance_aux_echanges
        (dependance exact
           (df_filtered \<lparr>rows = temporal_enrichment sample_to_datetime (records sample_file),
                         derived = []\<rparr> (Some ''Normandie'') (2020, 2020)))
        \<in> set (shown (app exact sample_to_datetime sample_file Synthese (Some ''Normandie'') (2020, 2020)))
   \<and> status (app exact sample_to_datetime sample_file Synthese (Some ''Normandie'') (2020, 2020))
       = Raised ValueError"
proof -
  have cols: "\<not> colonne_absente (columns sample_file)"
    by (simp add: colonne_absente_def sample_file_def ascii_def)
  have bounds: "slider_bounds (temporal_enrichment sample_to_datetime (records sample_file))
      = Inr (2020, 2021)"
    by (simp add: slider_bounds_def List.map_filter_def sample_defs)
  have cons:
    "map Consommation_MW (rows (df_filtered sample_frame (Some ''Normandie'') (2020, 2020))) = [Fin 0]"
    by (simp add: rows_df_filtered eq_region_def between_def sample_defs)
  have ech:
    "map Ech_physiques_MW (rows (df_filtered sample_frame (Some ''Normandie'') (2020, 2020))) = [Fin 5]"
    by (simp add: rows_df_filtered eq_region_def between_def sample_defs)
  have sum0: "np_sum exact [Fin 0] = Fin 0" and sum5: "np_sum exact [Fin 5] = Fin 5"
    by (simp_all add: exact_defs)
  have zero: "(if filter (\<lambda>v. v \<noteq> NaN)
         (map Consommation_MW (rows (df_filtered sample_frame (Some ''Normandie'') (2020, 2020)))) = []
      then Fin 0
      else np_sum exact (filter (\<lambda>v. v \<noteq> NaN)
         (map Consommation_MW (rows (df_filtered sample_frame (Some ''Normandie'') (2020, 2020)))))) = Fin 0"
    unfolding cons by (simp add: sum0)
  have nonzero: "(if filter (\<lambda>v. v \<noteq> NaN)
         (map Ech_physiques_MW (rows (df_filtered sample_frame (Some ''Normandie'') (2020, 2020)))) = []
      then Fin 0
      else np_sum exact (filter (\<lambda>v. v \<noteq> NaN)
         (map Ech_physiques_MW (rows (df_filtered sample_frame (Some ''Normandie'') (2020, 2020)))))) = Fin 5"
    unfolding ech by (simp add: sum5)
  note inst = dependance_zero_consumption
      [of "df_filtered sample_frame (Some ''Normandie'') (2020, 2020)" exact sample_file
        sample_to_datetime "(2020, 2021)" "Some ''Normandie''" "(2020, 2020)"]
  from inst zero nonzero
  have "dependance exact (df_filtered sample_frame (Some ''Normandie'') (2020, 2020)) = PInf
      \<or> dependance exact (df_filtered sample_frame (Some ''Normandie'') (2020, 2020)) = NInf"
    by simp
  moreover from inst cols bounds
  have "Dependance_aux_echanges
        (dependance exact
           (df_filtered \<lparr>rows = temporal_enrichment sample_to_datetime (records sample_file),
                         derived = []\<rparr> (Some ''Normandie'') (2020, 2020)))
        \<in> set (shown (app exact sample_to_datetime sample_file Synthese (Some ''Normandie'') (2020, 2020)))"
    by blast
  moreover from inst cols bounds
  have "status (app exact sample_to_datetime sample_file Synthese (Some ''Normandie'') (2020, 2020))
      = Raised ValueError"
    by blast
  ultimately show ?thesis using zero cols bounds by blast
qed

subsection \<open>No validation in the filter\<close>

lemma set_groupby_keys: "set (groupby_keys key xs) = {k. \<exists>x \<in> set xs. key x = Some k}"
  by (force simp: groupby_keys_def List.map_filter_def)


lemma app_Exploration:
  assumes "\<not> colonne_absente (columns file)"
    and "slider_bounds (temporal_enrichment td (records file)) = Inr b"
  shows "status (app np td file Exploration region annee) = Completed"
    and "shown (app np td file Exploration region annee) =
     [Colonnes_disponibles (columns file),
      Apercu (take 5 (temporal_enrichment td (records file))),
      Donnees_filtrees
        (df_filtered \<lparr>rows = temporal_enrichment td (records file), derived = []\<rparr> region annee)]"
  using assms by (simp_all add: shown_app status_app Let_def)

text \<open>
  Claim C7, as the specification states it, fails: line 51 validates nothing. With a
  region that no row of the sample file has, and with a year range whose minimum is
  above its maximum, the run completes and the filtered frame has no rows.
\<close>

theorem df_filtered_validation_counterexample:
  "''Atlantide'' \<notin> set (regions sample_df)
   \<and> status (app exact sample_to_datetime sample_file Exploration (Some ''Atlantide'') (2020, 2020))
       = Completed
   \<and> rows (df_filtered sample_frame (Some ''Atlantide'') (2020, 2020)) = []
   \<and> status (app exact sample_to_datetime sample_file Exploration (Some ''Bretagne'') (2023, 2018))
       = Completed
   \<and> rows (df_filtered sample_frame (Some ''Bretagne'') (2023, 2018)) = []"
  by (simp add: status_app colonne_absente_def ascii_def slider_bounds_def regions_def
        groupby_keys_def List.map_filter_def rows_df_filtered eq_region_def between_def Let_def
        sample_defs)

text \<open>
  Claim C7, amended. The Filter Engine does not fail when it is given a region that is
  not among the region values observed in the frame, nor when the year range has its
  minimum above its maximum: in both cases it returns a frame without rows, and the run
  of the page Exploration completes and shows the filtered frame whatever the region and
  the year range are.
\<close>

theorem df_filtered_no_validation:
  "set (regions (rows D)) = {k. \<exists>x \<in> set (rows D). Region x = Some k}
   \<and> (region \<notin> Some ` set (regions (rows D)) \<longrightarrow> rows (df_filtered D region annee) = [])
   \<and> (snd annee < fst annee \<longrightarrow> rows (df_filtered D region annee) = [])
   \<and> (\<not> colonne_absente (columns file)
      \<and> slider_bounds (temporal_enrichment td (records file)) = Inr b
    \<longrightarrow>
      status (app np td file Exploration region annee) = Completed
    \<and> shown (app np td file Exploration region annee) =
        [Colonnes_disponibles (columns file),
         Apercu (take 5 (temporal_enrichment td (records file))),
         Donnees_filtrees
           (df_filtered \<lparr>rows = temporal_enrichment td (records file), derived = []\<rparr> region annee)])"
proof -
  have 0: "set (regions (rows D)) = {k. \<exists>x \<in> set (rows D). Region x = Some k}"
    by (simp add: regions_def set_groupby_keys)
  have 1: "rows (df_filtered D region annee) = []" if "region \<notin> Some ` set (regions (rows D))"
  proof -
    have "\<not> eq_region (Region x) region" if "x \<in> set (rows D)" for x
      using that \<open>region \<notin> Some ` set (regions (rows D))\<close>
      by (auto simp: eq_region_def regions_def set_groupby_keys split: option.splits)
    then show ?thesis by (simp add: rows_df_filtered filter_empty_conv)
  qed
  have 2: "rows (df_filtered D region annee) = []" if "snd annee < fst annee"
  proof -
    have "\<not> between c (fst annee) (snd annee)" for c
      using that by (auto simp: between_def split: option.splits)
    then show ?thesis by (simp add: rows_df_filtered)
  qed
  from 0 1 2 show ?thesis
    using app_Exploration [of "file" td b np region annee] by blast
qed

theorem df_filtered_no_validation_witness:
  "Some ''Atlantide'' \<notin> Some ` set (regions (rows sample_frame))
   \<and> rows (df_filtered sample_frame (Some ''Atlantide'') (2023, 2018)) = []
   \<and> snd (2023 :: int, 2018 :: int) < fst (2023 :: int, 2018 :: int)
   \<and> \<not> colonne_absente (columns sample_file)
   \<and> slider_bounds (temporal_enrichment sample_to_datetime (records sample_file)) = Inr (2020, 2021)
   \<and> status (app exact sample_to_datetime sample_file Exploration (Some ''Atlantide'') (2023, 2018))
       = Completed"
proof -
  have a: "\<not> colonne_absente (columns sample_file)"
    by (simp add: colonne_absente_def sample_file_def ascii_def)
  have b: "slider_bounds (temporal_enrichment sample_to_datetime (records sample_file))
      = Inr (2020, 2021)"
    by (simp add: slider_bounds_def List.map_filter_def sample_defs)
  have c: "Some ''Atlantide'' \<notin> Some ` set (regions (rows sample_frame))"
    by (simp add: regions_def groupby_keys_def List.map_filter_def sample_defs)
  note inst = df_filtered_no_validation [of sample_frame "Some ''Atlantide''" "(2023, 2018)"
      sample_file sample_to_datetime "(2020, 2021)" exact]
  from inst c have r: "rows (df_filtered sample_frame (Some ''Atlantide'') (2023, 2018)) = []"
    by blast
  from inst a b
  have s: "status (app exact sample_to_datetime sample_file Exploration (Some ''Atlantide'') (2023, 2018))
      = Completed"
    by blast
  from a b c r s show ?thesis by simp
qed

subsection \<open>Frame objects\<close>

lemma length_setitem [simp]: "length (setitem q name col h) = length h"
  by (simp add: setitem_def)


lemma render_keeps_df:
  assumes "df < length h" "dff < length h" "df \<noteq> dff"
  shows "snd (render np page df dff h) ! df = h ! df"
  using assms
  by (cases page)
     (simp_all add: copy_def new_def getitem_def setitem_def Let_def nth_append split: prod.splits)


lemma fst_render_Scenario_2030:
  assumes "df < length h"
  shows "fst (render np Scenario_2030 df dff h) =
     (let sel = getitem_mask (h ! df)
                  (map (\<lambda>r. month_isin [1, 2] (Date_Heure r)
                             \<and> region_isin (top_risque np (rows (h ! df))) (Region r))
                     (rows (h ! df)));
          f = sel\<lparr>derived := AList.update ''Simul_delta''
                   (map (\<lambda>r. Num (fmul (np_multiply np) (delta_prod_cons r) (Fin (12 / 10)))) (rows sel))
                   (derived sel)\<rparr>
      in then_int_metric
           [Regions_selectionnees (top_risque np (rows (h ! df))), Evolution_simulee f]
           (deficit np (map num (column f ''Simul_delta''))))"
  using assms
  by (simp add: copy_def new_def getitem_def setitem_def Let_def nth_append)

lemma fst_render_Risque_national:
  "fst (render np Risque_national df dff h) =
     then_int_metric
       [Desequilibre_national (df_nat np (rows (h ! df))),
        Zoom_hivers (filter (\<lambda>r. month_isin [12, 1, 2] (Some (nat_Date_Heure r)))
                       (df_nat np (rows (h ! df)))),
        Situations_critiques (neg_count (df_nat np (rows (h ! df)))),
        Desequilibres_negatifs (filter (\<lambda>r. flt (delta r) (Fin 0)) (df_nat np (rows (h ! df))))]
       (deficit np (map delta (df_nat np (rows (h ! df)))))"
  by (simp add: Let_def)

lemma set_then_int_metric:
  "set xs \<subseteq> set (fst (then_int_metric xs x))"
  "e \<in> set (fst (then_int_metric xs x)) \<Longrightarrow> e \<in> set xs \<or> (\<exists>i. e = MW_cumules i)"
  by (auto simp: then_int_metric_def split: sum.splits)

text \<open>
  Claim C8. No page changes the enriched frame \<^verbatim>\<open>df\<close>: whatever the page, the
  object \<^verbatim>\<open>df\<close> refers to is the same after the page as before (the columns
  \<^verbatim>\<open>delta\<close>, \<^verbatim>\<open>Mois\<close>, \<^verbatim>\<open>Prod_ENR\<close> and \<^verbatim>\<open>Simul_delta\<close> are assigned to
  other objects), and at the end of every run that passes the schema check, for every
  page, region and year range, \<^verbatim>\<open>df\<close> is the frame temporal enrichment built.
\<close>

theorem pages_keep_df:
  "(df < length h \<and> dff < length h \<and> df \<noteq> dff \<longrightarrow> snd (render np page df dff h) ! df = h ! df)
   \<and> (\<not> colonne_absente (columns file) \<longrightarrow>
        objects (app np td file page region annee) ! 0
          = \<lparr>rows = temporal_enrichment td (records file), derived = []\<rparr>)"
proof -
  let ?D = "\<lparr>rows = temporal_enrichment td (records file), derived = []\<rparr>"
  let ?h1 = "[?D, df_filtered ?D region annee]"
  have "snd (render np page 0 1 ?h1) ! 0 = ?h1 ! 0"
    by (rule render_keeps_df) simp_all
  then have "objects (app np td file page region annee) ! 0 = ?D"
    if "\<not> colonne_absente (columns file)"
    by (simp add: objects_app [OF that] Let_def split: sum.splits)
  then show ?thesis by (simp add: render_keeps_df)
qed

theorem pages_keep_df_witness:
  "\<not> colonne_absente (columns sample_file)
   \<and> objects (app exact sample_to_datetime sample_file Visualisations (Some ''Bretagne'') (2020, 2020)) ! 0
       = sample_frame
   \<and> map fst (derived (objects (app exact sample_to_datetime sample_file Visualisations (Some ''Bretagne'') (2020, 2020)) ! 1))
       = [''delta'']
   \<and> map fst (derived (objects (app exact sample_to_datetime sample_file Focus_ENR (Some ''Bretagne'') (2020, 2020)) ! 2))
       = [''Prod_ENR'']
   \<and> objects (app exact sample_to_datetime sample_file Focus_ENR (Some ''Bretagne'') (2020, 2020)) ! 0
       = sample_frame"
  using pages_keep_df [of 0 "[sample_frame]" 0 exact Visualisations sample_file sample_to_datetime
      "Some ''Bretagne''" "(2020, 2020)"]
    pages_keep_df [of 0 "[sample_frame]" 0 exact Focus_ENR sample_file sample_to_datetime
      "Some ''Bretagne''" "(2020, 2020)"]
  by (simp add: objects_app colonne_absente_def ascii_def slider_bounds_def List.map_filter_def
        copy_def new_def setitem_def Let_def df_filtered_def getitem_mask_def sample_defs)

subsection \<open>The derived column delta\<close>





subsection \<open>Pages that read the whole frame\<close>

text \<open>
  Claim C10. Two runs over the same file that differ only in the selected region and
  year range show the same things and end the same way on the page Scenario 2030 and on
  the page Risque national; the list of regions shown by Scenario 2030 is
  \<open>top_risque\<close> of the whole enriched frame, and the aggregation shown by Risque
  national is \<open>df_nat\<close> of the whole enriched frame, and both are shown in every run
  that reaches the page.
\<close>

theorem unfiltered_pages_ignore_filter_context:
  "shown (app np td file Scenario_2030 r1 y1) = shown (app np td file Scenario_2030 r2 y2)
   \<and> status (app np td file Scenario_2030 r1 y1) = status (app np td file Scenario_2030 r2 y2)
   \<and> shown (app np td file Risque_national r1 y1) = shown (app np td file Risque_national r2 y2)
   \<and> status (app np td file Risque_national r1 y1) = status (app np td file Risque_national r2 y2)
   \<and> (\<forall>ks. Regions_selectionnees ks \<in> set (shown (app np td file Scenario_2030 r1 y1)) \<longrightarrow>
        ks = top_risque np (temporal_enrichment td (records file)))
   \<and> (\<forall>n. Desequilibre_national n \<in> set (shown (app np td file Risque_national r1 y1)) \<longrightarrow>
        n = df_nat np (temporal_enrichment td (records file)))
   \<and> (\<not> colonne_absente (columns file)
      \<and> slider_bounds (temporal_enrichment td (records file)) = Inr b
    \<longrightarrow>
      Regions_selectionnees (top_risque np (temporal_enrichment td (records file)))
        \<in> set (shown (app np td file Scenario_2030 r1 y1))
    \<and> Desequilibre_national (df_nat np (temporal_enrichment td (records file)))
        \<in> set (shown (app np td file Risque_national r1 y1)))"
proof -
  let ?D = "\<lparr>rows = temporal_enrichment td (records file), derived = []\<rparr>"
  have s: "fst (render np Scenario_2030 0 1 [?D, X]) = fst (render np Scenario_2030 0 1 [?D, Y])" for X Y
    by (simp add: fst_render_Scenario_2030 del: render.simps)
  have n: "fst (render np Risque_national 0 1 [?D, X]) = fst (render np Risque_national 0 1 [?D, Y])" for X Y
    by (simp add: fst_render_Risque_national del: render.simps)
  have 1: "shown (app np td file Scenario_2030 r1 y1) = shown (app np td file Scenario_2030 r2 y2)"
    unfolding shown_app Let_def s [of "df_filtered ?D r1 y1" "df_filtered ?D r2 y2"] ..
  have 2: "status (app np td file Scenario_2030 r1 y1) = status (app np td file Scenario_2030 r2 y2)"
    unfolding status_app Let_def s [of "df_filtered ?D r1 y1" "df_filtered ?D r2 y2"] ..
  have 3: "shown (app np td file Risque_national r1 y1) = shown (app np td file Risque_national r2 y2)"
    unfolding shown_app Let_def n [of "df_filtered ?D r1 y1" "df_filtered ?D r2 y2"] ..
  have 4: "status (app np td file Risque_national r1 y1) = status (app np td file Risque_national r2 y2)"
    unfolding status_app Let_def n [of "df_filtered ?D r1 y1" "df_filtered ?D r2 y2"] ..
  have 5: "ks = top_risque np (temporal_enrichment td (records file))"
    if "Regions_selectionnees ks \<in> set (shown (app np td file Scenario_2030 r1 y1))" for ks
    using that
    by (auto simp: shown_app fst_render_Scenario_2030 Let_def simp del: render.simps
             split: if_splits sum.splits dest!: set_then_int_metric(2))
  have 6: "n = df_nat np (temporal_enrichment td (records file))"
    if "Desequilibre_national n \<in> set (shown (app np td file Risque_national r1 y1))" for n
    using that
    by (auto simp: shown_app fst_render_Risque_national Let_def simp del: render.simps
             split: if_splits sum.splits dest!: set_then_int_metric(2))
  have 7: "Regions_selectionnees (top_risque np (temporal_enrichment td (records file)))
        \<in> set (shown (app np td file Scenario_2030 r1 y1))"
    if "\<not> colonne_absente (columns file)"
      and "slider_bounds (temporal_enrichment td (records file)) = Inr b"
    using that set_then_int_metric(1)
    by (fastforce simp: shown_app fst_render_Scenario_2030 Let_def simp del: render.simps)
  have 8: "Desequilibre_national (df_nat np (temporal_enrichment td (records file)))
        \<in> set (shown (app np td file Risque_national r1 y1))"
    if "\<not> colonne_absente (columns file)"
      and "slider_bounds (temporal_enrichment td (records file)) = Inr b"
    using that set_then_int_metric(1)
    by (fastforce simp: shown_app fst_render_Risque_national Let_def simp del: render.simps)
  from 1 2 3 4 5 6 7 8 show ?thesis by blast
qed

theorem unfiltered_pages_ignore_filter_context_witness:
  "\<not> colonne_absente (columns sample_file)
   \<and> slider_bounds (temporal_enrichment sample_to_datetime (records sample_file)) = Inr (2020, 2021)
   \<and> shown (app exact sample_to_datetime sample_file Scenario_2030 (Some ''Bretagne'') (2020, 2020))
       = shown (app exact sample_to_datetime sample_file Scenario_2030 (Some ''Normandie'') (2018, 2023))
   \<and> Regions_selectionnees [''Bretagne'', ''Normandie'']
       \<in> set (shown (app exact sample_to_datetime sample_file Scenario_2030 (Some ''Bretagne'') (2020, 2020)))
   \<and> Desequilibre_national
        [\<lparr>nat_Date_Heure = (2020, 1, 15, 10, 0, 0), nat_Consommation_MW = Fin 1000,
          nat_Production_totale = Fin 960, delta = Fin (- 40)\<rparr>,
         \<lparr>nat_Date_Heure = (2021, 7, 1, 0, 0, 0), nat_Consommation_MW = Fin 20,
          nat_Production_totale = Fin 0, delta = Fin (- 20)\<rparr>]
       \<in> set (shown (app exact sample_to_datetime sample_file Risque_national (Some ''Bretagne'') (2020, 2020)))"
proof -
  have cols: "\<not> colonne_absente (columns sample_file)"
    by (simp add: colonne_absente_def sample_file_def ascii_def)
  have bounds: "slider_bounds (temporal_enrichment sample_to_datetime (records sample_file))
      = Inr (2020, 2021)"
    by (simp add: slider_bounds_def List.map_filter_def sample_defs)
  have recs: "temporal_enrichment sample_to_datetime (records sample_file) = sample_df"
    by (simp add: sample_df_def sample_file_def)
  have top: "top_risque exact sample_df = [''Bretagne'', ''Normandie'']"
    by (simp add: top_risque_def nsmallest_def groupby_Region_mean_def region_mean_def
          group_mean_def groupby_keys_def group_def List.map_filter_def dropna_def
          exact_defs sample_defs)
  have nat: "df_nat exact sample_df =
       [\<lparr>nat_Date_Heure = (2020, 1, 15, 10, 0, 0), nat_Consommation_MW = Fin 1000,
         nat_Production_totale = Fin 960, delta = Fin (- 40)\<rparr>,
        \<lparr>nat_Date_Heure = (2021, 7, 1, 0, 0, 0), nat_Consommation_MW = Fin 20,
         nat_Production_totale = Fin 0, delta = Fin (- 20)\<rparr>]"
    by (simp add: df_nat_def add_delta_def groupby_Date_Heure_sum_def fsub_def group_sum_def
          groupby_keys_def group_def List.map_filter_def dropna_def exact_defs sample_defs)
  note inst = unfiltered_pages_ignore_filter_context
      [of exact sample_to_datetime sample_file "Some ''Bretagne''" "(2020, 2020)"
        "Some ''Normandie''" "(2018, 2023)" "(2020, 2021)", unfolded recs top nat]
  from inst cols bounds [unfolded recs] show ?thesis
    unfolding recs by blast
qed

subsection \<open>The five most deficitary regions\<close>











end
